theory Spec2Isabelle
  imports Complex_Main "HOL-Library.Word"
begin

section \<open>Element types and numpy's type promotion\<close>

text \<open>
  The element type of an array is read in the source as \<open>a.dtype.char\<close>, numpy's
  one-character type code. The constructors below are the codes that numpy's
  \<open>find_common_type\<close> scans over (on a 64-bit Linux build):
  \<^verbatim>\<open>?  b B  h H  i I  l L  q Q  e f d g  F D G  O\<close>.
\<close>

datatype dtype =
    Bool8        \<comment> \<open>\<open>'?'\<close>\<close>
  | Int8         \<comment> \<open>\<open>'b'\<close>\<close>
  | UInt8        \<comment> \<open>\<open>'B'\<close>\<close>
  | Int16        \<comment> \<open>\<open>'h'\<close>\<close>
  | UInt16       \<comment> \<open>\<open>'H'\<close>\<close>
  | Int32        \<comment> \<open>\<open>'i'\<close>\<close>
  | UInt32       \<comment> \<open>\<open>'I'\<close>\<close>
  | Int64        \<comment> \<open>\<open>'l'\<close>\<close>
  | UInt64       \<comment> \<open>\<open>'L'\<close>\<close>
  | LongLong     \<comment> \<open>\<open>'q'\<close>\<close>
  | ULongLong    \<comment> \<open>\<open>'Q'\<close>\<close>
  | Float16      \<comment> \<open>\<open>'e'\<close>\<close>
  | Float32      \<comment> \<open>\<open>'f'\<close>\<close>
  | Float64      \<comment> \<open>\<open>'d'\<close>\<close>
  | LongDouble   \<comment> \<open>\<open>'g'\<close>\<close>
  | Complex64    \<comment> \<open>\<open>'F'\<close>\<close>
  | Complex128   \<comment> \<open>\<open>'D'\<close>\<close>
  | CLongDouble  \<comment> \<open>\<open>'G'\<close>\<close>
  | Object       \<comment> \<open>\<open>'O'\<close>\<close>

fun dtype_char :: "dtype \<Rightarrow> char" where
  "dtype_char Bool8 = CHR ''?''"
| "dtype_char Int8 = CHR ''b''"
| "dtype_char UInt8 = CHR ''B''"
| "dtype_char Int16 = CHR ''h''"
| "dtype_char UInt16 = CHR ''H''"
| "dtype_char Int32 = CHR ''i''"
| "dtype_char UInt32 = CHR ''I''"
| "dtype_char Int64 = CHR ''l''"
| "dtype_char UInt64 = CHR ''L''"
| "dtype_char LongLong = CHR ''q''"
| "dtype_char ULongLong = CHR ''Q''"
| "dtype_char Float16 = CHR ''e''"
| "dtype_char Float32 = CHR ''f''"
| "dtype_char Float64 = CHR ''d''"
| "dtype_char LongDouble = CHR ''g''"
| "dtype_char Complex64 = CHR ''F''"
| "dtype_char Complex128 = CHR ''D''"
| "dtype_char CLongDouble = CHR ''G''"
| "dtype_char Object = CHR ''O''"

datatype kind = KBool | KInt | KUInt | KFloat | KComplex | KObject

fun dtype_kind :: "dtype \<Rightarrow> kind" where
  "dtype_kind Bool8 = KBool"
| "dtype_kind Int8 = KInt"
| "dtype_kind UInt8 = KUInt"
| "dtype_kind Int16 = KInt"
| "dtype_kind UInt16 = KUInt"
| "dtype_kind Int32 = KInt"
| "dtype_kind UInt32 = KUInt"
| "dtype_kind Int64 = KInt"
| "dtype_kind UInt64 = KUInt"
| "dtype_kind LongLong = KInt"
| "dtype_kind ULongLong = KUInt"
| "dtype_kind Float16 = KFloat"
| "dtype_kind Float32 = KFloat"
| "dtype_kind Float64 = KFloat"
| "dtype_kind LongDouble = KFloat"
| "dtype_kind Complex64 = KComplex"
| "dtype_kind Complex128 = KComplex"
| "dtype_kind CLongDouble = KComplex"
| "dtype_kind Object = KObject"

text \<open>Size of one element in bytes (\<open>dtype.itemsize\<close>).\<close>

fun itemsize :: "dtype \<Rightarrow> nat" where
  "itemsize Bool8 = 1"
| "itemsize Int8 = 1"
| "itemsize UInt8 = 1"
| "itemsize Int16 = 2"
| "itemsize UInt16 = 2"
| "itemsize Int32 = 4"
| "itemsize UInt32 = 4"
| "itemsize Int64 = 8"
| "itemsize UInt64 = 8"
| "itemsize LongLong = 8"
| "itemsize ULongLong = 8"
| "itemsize Float16 = 2"
| "itemsize Float32 = 4"
| "itemsize Float64 = 8"
| "itemsize LongDouble = 16"
| "itemsize Complex64 = 8"
| "itemsize Complex128 = 16"
| "itemsize CLongDouble = 32"
| "itemsize Object = 8"

text \<open>
  numpy's safe-casting relation, \<open>numpy.can_cast(from, to)\<close>, by kind and size. An
  integer of \<open>s\<close> bytes casts safely to a float whose size exceeds \<open>s\<close>, and a
  64-bit integer to any float of at least 64 bits; a complex type is judged by the size
  of one of its two components; everything casts to \<open>object\<close>.
\<close>

fun can_cast_kind :: "kind \<Rightarrow> nat \<Rightarrow> kind \<Rightarrow> nat \<Rightarrow> bool" where
  "can_cast_kind _ _ KObject _ = True"
| "can_cast_kind KObject _ _ _ = False"
| "can_cast_kind KBool _ _ _ = True"
| "can_cast_kind _ _ KBool _ = False"
| "can_cast_kind KInt s KInt t = (s \<le> t)"
| "can_cast_kind KInt s KUInt t = False"
| "can_cast_kind KUInt s KUInt t = (s \<le> t)"
| "can_cast_kind KUInt s KInt t = (s < t)"
| "can_cast_kind KInt s KFloat t = (s < t \<or> (s = 8 \<and> 8 \<le> t))"
| "can_cast_kind KUInt s KFloat t = (s < t \<or> (s = 8 \<and> 8 \<le> t))"
| "can_cast_kind KInt s KComplex t = (s < t div 2 \<or> (s = 8 \<and> 8 \<le> t div 2))"
| "can_cast_kind KUInt s KComplex t = (s < t div 2 \<or> (s = 8 \<and> 8 \<le> t div 2))"
| "can_cast_kind KFloat s KFloat t = (s \<le> t)"
| "can_cast_kind KFloat s KComplex t = (s \<le> t div 2)"
| "can_cast_kind KFloat s _ t = False"
| "can_cast_kind KComplex s KComplex t = (s \<le> t)"
| "can_cast_kind KComplex s _ t = False"

definition can_cast :: "dtype \<Rightarrow> dtype \<Rightarrow> bool" where
  "can_cast from to = can_cast_kind (dtype_kind from) (itemsize from) (dtype_kind to) (itemsize to)"

text \<open>
  \<open>numpy.find_common_type\<close> is a function of the numpy library, not of this
  repository. It is transcribed from numpy's \<open>numerictypes.py\<close>:
  \<^verbatim>\<open>
  __test_types = '?' + typecodes['AllInteger'][:-2] + typecodes['AllFloat'] + 'O'

  def _can_coerce_all(dtypelist, start=0):
      N = len(dtypelist)
      if N == 0: return None
      if N == 1: return dtypelist[0]
      thisind = start
      while thisind < __len_test_types:
          newdtype = dtype(__test_types[thisind])
          numcoerce = len([x for x in dtypelist if newdtype >= x])
          if numcoerce == N: return newdtype
          thisind += 1
      return None
  \<close>
  where \<open>newdtype >= x\<close> is \<open>can_cast(x, newdtype)\<close>. The source calls
  \<open>find_common_type\<close> with the empty tuple of scalar types, for which it returns
  \<open>_can_coerce_all(array_types)\<close>.
\<close>

definition test_types :: "dtype list" where
  "test_types = [Bool8, Int8, UInt8, Int16, UInt16, Int32, UInt32, Int64, UInt64,
     LongLong, ULongLong, Float16, Float32, Float64, LongDouble,
     Complex64, Complex128, CLongDouble, Object]"

fun coerce_scan :: "dtype list \<Rightarrow> dtype list \<Rightarrow> dtype option" where
  "coerce_scan [] dtypelist = None"
| "coerce_scan (newdtype # rest) dtypelist =
     (if length (filter (\<lambda>x. can_cast x newdtype) dtypelist) = length dtypelist
      then Some newdtype else coerce_scan rest dtypelist)"

definition can_coerce_all :: "dtype list \<Rightarrow> dtype option" where
  "can_coerce_all dtypelist =
     (if length dtypelist = 0 then None
      else if length dtypelist = 1 then Some (hd dtypelist)
      else coerce_scan test_types dtypelist)"

definition find_common_type :: "dtype list \<Rightarrow> dtype option" where
  "find_common_type array_types = can_coerce_all array_types"

text \<open>
  Lines 34--39 of \<open>cholesky\<close>, the dtype resolver:
  \<^verbatim>\<open>
  ret_dtype = a.dtype.char
  if ret_dtype == 'f' or ret_dtype == 'd':
      dtype = ret_dtype
  else:
      dtype = numpy.find_common_type((ret_dtype, 'f'), ()).char
  \<close>
  \<open>None\<close> stands for \<open>find_common_type\<close> returning \<open>None\<close>, on which \<open>.char\<close>
  raises \<open>AttributeError\<close>.
\<close>

definition resolve_dtype :: "dtype \<Rightarrow> dtype option" where
  "resolve_dtype ret_dtype =
     (if dtype_char ret_dtype = CHR ''f'' \<or> dtype_char ret_dtype = CHR ''d'' then Some ret_dtype
      else find_common_type [ret_dtype, Float32])"

text \<open>The real element types of at most double precision.\<close>

definition real_upto_double :: "dtype \<Rightarrow> bool" where
  "real_upto_double t =
     (dtype_kind t \<in> {KBool, KInt, KUInt} \<or> t \<in> {Float16, Float32, Float64})"

section \<open>Arrays, the device heap and the native solver\<close>

text \<open>
  An array element. Floating-point buffers hold IEEE 754 values: finite numbers (here
  rationals, \<open>Finite 0\<close> being \<open>+0.0\<close>), the negative zero, the two infinities (the flag
  is the sign bit) and NaN. Integer and boolean buffers hold \<open>Finite\<close> values only.
\<close>

datatype elem = Finite rat | NegZero | Infinity bool | NaN

definition is_zero :: "elem \<Rightarrow> bool" where
  "is_zero e = (e = Finite 0 \<or> e = NegZero)"

definition is_finite :: "elem \<Rightarrow> bool" where
  "is_finite e = (case e of Finite q \<Rightarrow> True | NegZero \<Rightarrow> True | _ \<Rightarrow> False)"

definition is_inexact :: "dtype \<Rightarrow> bool" where
  "is_inexact t = (dtype_kind t = KFloat \<or> dtype_kind t = KComplex)"

text \<open>
  \<open>x *= mask\<close> multiplies each element by the mask bit converted to the buffer's element
  type: by \<open>1\<close> where the bit is set, by \<open>0\<close> where it is not. Both products are exact.
  In floating point \<open>x * 1 = x\<close> for every \<open>x\<close>; \<open>x * 0\<close> is a zero carrying the sign of
  \<open>x\<close> when \<open>x\<close> is finite, and NaN when \<open>x\<close> is infinite or NaN. In integer
  arithmetic \<open>x * 0 = 0\<close>.
\<close>

fun mul_by_mask :: "dtype \<Rightarrow> elem \<Rightarrow> bool \<Rightarrow> elem" where
  "mul_by_mask t e True = e"
| "mul_by_mask t (Finite q) False = (if is_inexact t \<and> q < 0 then NegZero else Finite 0)"
| "mul_by_mask t NegZero False = NegZero"
| "mul_by_mask t (Infinity neg) False = NaN"
| "mul_by_mask t NaN False = NaN"

text \<open>
  An array (\<open>cupy.ndarray\<close> or \<open>numpy.ndarray\<close>): its shape, its element type and its
  elements in row-major order, so that element \<open>(u, v)\<close> of an \<open>m \<times> n\<close> array is
  \<open>data ! (u * n + v)\<close>.
\<close>

record ndarray =
  shape :: "nat list"
  dtype :: dtype
  data :: "elem list"

definition elem_at :: "ndarray \<Rightarrow> nat \<Rightarrow> nat \<Rightarrow> elem" where
  "elem_at x u v = data x ! (u * (shape x ! 1) + v)"

text \<open>
  A Python value passed as \<open>a\<close>: a reference to an array on the device, an array on
  the host, or any other object. The device heap is the list of the arrays allocated so
  far; a reference is an index into it, and an allocation appends.
\<close>

datatype pyobj = Cupy nat | Numpy ndarray | Other

datatype error =
    RuntimeError string
  | LinAlgError string
  | AttributeError string
  | ValueError string
  | IndexError string

text \<open>The operations that reach the device, in the order they are issued.\<close>

datatype event =
    EvAstype nat dtype nat      \<comment> \<open>\<open>a.astype(dtype, copy=True)\<close>: source, type, new buffer\<close>
  | EvGetHandle                 \<comment> \<open>\<open>device.get_cusolver_handle()\<close>\<close>
  | EvEmpty nat dtype           \<comment> \<open>\<open>cupy.empty(size, dtype)\<close>\<close>
  | EvBufferSize dtype nat      \<comment> \<open>\<open>cusolver.?potrf_bufferSize\<close>\<close>
  | EvPotrf dtype nat           \<comment> \<open>\<open>cusolver.?potrf\<close>\<close>
  | EvReadback                  \<comment> \<open>\<open>int(devInfo[0])\<close>\<close>
  | EvTril nat                  \<comment> \<open>the kernels of \<open>_tril\<close> on a buffer\<close>

record state =
  heap :: "ndarray list"
  trace :: "event list"

text \<open>
  What the module imports from the runtime: the flag \<open>cusolver_enabled\<close>, the element
  conversion of \<open>astype\<close>, and the native entry points. A native factorization receives
  the dimension, the contents of the buffer and the workspace size, and yields what it
  writes to the buffer and the 32-bit status word it writes to \<open>devInfo\<close>. The handle
  and the fill mode are the same in every call.
\<close>

record env =
  cusolver_enabled :: bool
  cast :: "dtype \<Rightarrow> dtype \<Rightarrow> elem \<Rightarrow> elem"
  spotrf_bufferSize :: "nat \<Rightarrow> elem list \<Rightarrow> nat"
  spotrf :: "nat \<Rightarrow> elem list \<Rightarrow> nat \<Rightarrow> elem list \<times> 32 word"
  dpotrf_bufferSize :: "nat \<Rightarrow> elem list \<Rightarrow> nat"
  dpotrf :: "nat \<Rightarrow> elem list \<Rightarrow> nat \<Rightarrow> elem list \<times> 32 word"

text \<open>A native call writes in place: the buffer keeps its size.\<close>

definition in_place :: "elem list \<Rightarrow> elem list \<Rightarrow> elem list" where
  "in_place old written = take (length old) written @ drop (length written) old"

section \<open>Decimal rendering, for the error messages\<close>

definition digit_char :: "nat \<Rightarrow> char" where
  "digit_char d = ''0123456789'' ! d"

function str_nat :: "nat \<Rightarrow> string" where
  "str_nat n = (if n < 10 then [digit_char n] else str_nat (n div 10) @ [digit_char (n mod 10)])"
  by pat_completeness auto
termination
  by (relation "measure id") auto

declare str_nat.simps [simp del]

definition str_int :: "int \<Rightarrow> string" where
  "str_int i = (if i < 0 then CHR ''-'' # str_nat (nat (- i)) else str_nat (nat i))"

definition digit_val :: "char \<Rightarrow> nat" where
  "digit_val c = of_char c - 48"

definition parse_nat :: "string \<Rightarrow> nat" where
  "parse_nat cs = foldl (\<lambda>acc c. 10 * acc + digit_val c) 0 cs"

section \<open>The validators\<close>

definition type_message :: string where
  "type_message = ''cupy.linalg only supports cupy.core.ndarray''"

text \<open>
  \<^verbatim>\<open>
  def _assertCupyArray(*arrays):
      for a in arrays:
          if not isinstance(a, cupy.core.ndarray):
              raise LinAlgError('cupy.linalg only supports cupy.core.ndarray')
  \<close>
\<close>

fun assertCupyArray :: "pyobj list \<Rightarrow> error + unit" where
  "assertCupyArray [] = Inr ()"
| "assertCupyArray (Cupy p # arrays) = assertCupyArray arrays"
| "assertCupyArray (a # arrays) = Inl (LinAlgError type_message)"

text \<open>\<open>a.shape\<close>: an object that is no array has no such attribute.\<close>

fun get_shape :: "ndarray list \<Rightarrow> pyobj \<Rightarrow> error + nat list" where
  "get_shape h (Cupy p) = Inr (shape (h ! p))"
| "get_shape h (Numpy x) = Inr (shape x)"
| "get_shape h Other = Inl (AttributeError ''shape'')"

text \<open>
  \<^verbatim>\<open>
  def _assertRank2(*arrays):
      for a in arrays:
          if len(a.shape) != 2:
              raise LinAlgError(
                  '{}-dimensional array given. Array must be '
                  'two-dimensional'.format(len(a.shape)))
  \<close>
\<close>

definition rank_message :: "nat \<Rightarrow> string" where
  "rank_message r = str_nat r @ ''-dimensional array given. Array must be two-dimensional''"

fun assertRank2 :: "ndarray list \<Rightarrow> pyobj list \<Rightarrow> error + unit" where
  "assertRank2 h [] = Inr ()"
| "assertRank2 h (a # arrays) =
     (case get_shape h a of
        Inl e \<Rightarrow> Inl e
      | Inr sh \<Rightarrow>
          if length sh \<noteq> 2 then Inl (LinAlgError (rank_message (length sh)))
          else assertRank2 h arrays)"

text \<open>
  \<^verbatim>\<open>
  def _assertNdSquareness(*arrays):
      for a in arrays:
          if max(a.shape[-2:]) != min(a.shape[-2:]):
              raise LinAlgError('Last 2 dimensions of the array must be square')
  \<close>
  \<open>max\<close> and \<open>min\<close> of an empty tuple raise \<open>ValueError\<close>.
\<close>

definition last2 :: "nat list \<Rightarrow> nat list" where
  "last2 sh = drop (length sh - 2) sh"

definition py_max :: "nat list \<Rightarrow> error + nat" where
  "py_max xs = (case xs of [] \<Rightarrow> Inl (ValueError ''max() arg is an empty sequence'')
                | y # ys \<Rightarrow> Inr (fold max ys y))"

definition py_min :: "nat list \<Rightarrow> error + nat" where
  "py_min xs = (case xs of [] \<Rightarrow> Inl (ValueError ''min() arg is an empty sequence'')
                | y # ys \<Rightarrow> Inr (fold min ys y))"

definition square_message :: string where
  "square_message = ''Last 2 dimensions of the array must be square''"

fun assertNdSquareness :: "ndarray list \<Rightarrow> pyobj list \<Rightarrow> error + unit" where
  "assertNdSquareness h [] = Inr ()"
| "assertNdSquareness h (a # arrays) =
     (case get_shape h a of
        Inl e \<Rightarrow> Inl e
      | Inr sh \<Rightarrow>
          (case py_max (last2 sh) of
             Inl e \<Rightarrow> Inl e
           | Inr mx \<Rightarrow>
               (case py_min (last2 sh) of
                  Inl e \<Rightarrow> Inl e
                | Inr mn \<Rightarrow>
                    if mx \<noteq> mn then Inl (LinAlgError square_message)
                    else assertNdSquareness h arrays)))"

section \<open>The triangular mask\<close>

text \<open>
  \<^verbatim>\<open>
  def _tril(x, k=0):
      m, n = x.shape
      u = cupy.arange(m).reshape(m, 1)
      v = cupy.arange(n).reshape(1, n)
      mask = v - u <= k
      x *= mask
      return x
  \<close>
  \<open>u\<close> is a column and \<open>v\<close> a row, so the mask at row \<open>u\<close>, column \<open>v\<close> is
  \<open>v - u <= k\<close>; the product is taken element by element, in place. Unpacking a shape
  that has not two entries raises \<open>ValueError\<close>.
\<close>

definition tril_data :: "dtype \<Rightarrow> nat \<Rightarrow> nat \<Rightarrow> int \<Rightarrow> elem list \<Rightarrow> elem list" where
  "tril_data t m n k xs =
     concat (map (\<lambda>u. map (\<lambda>v. mul_by_mask t (xs ! (u * n + v)) (int v - int u \<le> k)) [0..<n])
                 [0..<m])"

definition tril :: "state \<Rightarrow> nat \<Rightarrow> int \<Rightarrow> (error + nat) \<times> state" where
  "tril s x k =
     (let xa = heap s ! x in
      case shape xa of
        [m, n] \<Rightarrow>
          (Inr x,
           s\<lparr>heap := (heap s)[x := xa\<lparr>data := tril_data (dtype xa) m n k (data xa)\<rparr>],
             trace := trace s @ [EvTril x]\<rparr>)
      | _ \<Rightarrow> (Inl (ValueError ''unpack''), s))"

section \<open>The decomposition\<close>

text \<open>\<open>a.astype(dtype, copy=True)\<close>: a new buffer of the same shape, every element converted.\<close>

definition astype :: "env \<Rightarrow> state \<Rightarrow> nat \<Rightarrow> dtype \<Rightarrow> nat \<times> state" where
  "astype E s p t =
     (let a = heap s ! p;
          x = \<lparr>shape = shape a, dtype = t, data = map (cast E (dtype a) t) (data a)\<rparr>;
          q = length (heap s)
      in (q, s\<lparr>heap := heap s @ [x], trace := trace s @ [EvAstype p t q]\<rparr>))"

text \<open>
  Lines 43--59: the handle, the status buffer, then, by the element type of \<open>x\<close>, the
  single- or the double-precision pair of native calls on the buffer of \<open>x\<close>, and the
  status read back as \<open>int(devInfo[0])\<close>. The workspace and the status buffer do not
  outlive the call; their allocation is recorded in the trace.
\<close>

definition potrf_dispatch :: "env \<Rightarrow> state \<Rightarrow> nat \<Rightarrow> nat \<Rightarrow> int \<times> state" where
  "potrf_dispatch E s x n =
     (let xa = heap s ! x in
      if dtype_char (dtype xa) = CHR ''f'' then
        (let buffersize = spotrf_bufferSize E n (data xa);
             r = spotrf E n (data xa) buffersize
         in (sint (snd r),
             s\<lparr>heap := (heap s)[x := xa\<lparr>data := in_place (data xa) (fst r)\<rparr>],
               trace := trace s @ [EvGetHandle, EvEmpty 1 Int32, EvBufferSize Float32 n,
                                   EvEmpty buffersize Float32, EvPotrf Float32 n, EvReadback]\<rparr>))
      else
        (let buffersize = dpotrf_bufferSize E n (data xa);
             r = dpotrf E n (data xa) buffersize
         in (sint (snd r),
             s\<lparr>heap := (heap s)[x := xa\<lparr>data := in_place (data xa) (fst r)\<rparr>],
               trace := trace s @ [EvGetHandle, EvEmpty 1 Int32, EvBufferSize Float64 n,
                                   EvEmpty buffersize Float64, EvPotrf Float64 n, EvReadback]\<rparr>)))"

definition capability_message :: string where
  "capability_message = ''Current cupy only supports cusolver in CUDA 8.0''"

definition minor_message :: "int \<Rightarrow> string" where
  "minor_message status =
     ''The leading minor of order '' @ str_int status @ '' is not positive definite''"

definition parameter_message :: string where
  "parameter_message = ''Parameter error (maybe caused by a bug in cupy.linalg?)''"

text \<open>Lines 34--68 of \<open>cholesky\<close>, on the array at address \<open>p\<close>.\<close>

definition cholesky_device :: "env \<Rightarrow> state \<Rightarrow> nat \<Rightarrow> (error + nat) \<times> state" where
  "cholesky_device E s p =
     (let a = heap s ! p in
      case resolve_dtype (dtype a) of
        None \<Rightarrow> (Inl (AttributeError ''char''), s)
      | Some t \<Rightarrow>
          (let xs1 = astype E s p t in
           case shape a of
             [] \<Rightarrow> (Inl (IndexError ''tuple index out of range''), snd xs1)
           | n # _ \<Rightarrow>
               (let r = potrf_dispatch E (snd xs1) (fst xs1) n;
                    status = fst r
                in if status > 0 then (Inl (LinAlgError (minor_message status)), snd r)
                   else if status < 0 then (Inl (LinAlgError parameter_message), snd r)
                   else tril (snd r) (fst xs1) 0)))"

text \<open>
  \<open>cholesky\<close>, lines 26--32 and then the rest. Once \<open>_assertCupyArray\<close> has returned,
  \<open>a\<close> is a device array; the last branch of the \<open>case\<close> is never taken.
\<close>

definition cholesky :: "env \<Rightarrow> state \<Rightarrow> pyobj \<Rightarrow> (error + nat) \<times> state" where
  "cholesky E s a =
     (if \<not> cusolver_enabled E then (Inl (RuntimeError capability_message), s)
      else
        case assertCupyArray [a] of
          Inl e \<Rightarrow> (Inl e, s)
        | Inr _ \<Rightarrow>
            (case assertRank2 (heap s) [a] of
               Inl e \<Rightarrow> (Inl e, s)
             | Inr _ \<Rightarrow>
                 (case assertNdSquareness (heap s) [a] of
                    Inl e \<Rightarrow> (Inl e, s)
                  | Inr _ \<Rightarrow>
                      (case a of
                         Cupy p \<Rightarrow> cholesky_device E s p
                       | _ \<Rightarrow> (Inl (AttributeError ''dtype''), s)))))"

text \<open>
  The pair of native calls that line 45 selects for a buffer of element type \<open>t\<close>: what
  they write and the status word.
\<close>

definition native :: "env \<Rightarrow> dtype \<Rightarrow> nat \<Rightarrow> elem list \<Rightarrow> elem list \<times> 32 word" where
  "native E t n xs =
     (if dtype_char t = CHR ''f'' then spotrf E n xs (spotrf_bufferSize E n xs)
      else dpotrf E n xs (dpotrf_bufferSize E n xs))"

section \<open>Concrete environments and inputs\<close>

text \<open>
  A runtime with the solver library, whose factorization reports success and leaves the
  buffer as it found it. That is what \<open>potrf\<close> does when the triangle it reads is the
  identity matrix. On the buffer \<open>4 2 2 5\<close> (the matrix with rows \<open>4 2\<close> and \<open>2 5\<close>) it
  writes the factor \<open>2 1 / 0 2\<close> into the triangle it reads, which gives \<open>2 2 1 2\<close>.
\<close>

definition env_ok :: env where
  "env_ok =
     \<lparr>cusolver_enabled = True,
      cast = (\<lambda>from to e. e),
      spotrf_bufferSize = (\<lambda>n xs. n),
      spotrf = (\<lambda>n xs lwork.
        if xs = [Finite 4, Finite 2, Finite 2, Finite 5]
        then ([Finite 2, Finite 2, Finite 1, Finite 2], 0) else (xs, 0)),
      dpotrf_bufferSize = (\<lambda>n xs. n),
      dpotrf = (\<lambda>n xs lwork. (xs, 0))\<rparr>"

text \<open>The same runtime built without the solver library.\<close>

definition env_off :: env where
  "env_off = env_ok\<lparr>cusolver_enabled := False\<rparr>"

text \<open>A runtime whose single-precision factorization reports the given status.\<close>

definition env_status :: "32 word \<Rightarrow> env" where
  "env_status w = env_ok\<lparr>spotrf := (\<lambda>n xs lwork. (xs, w))\<rparr>"

definition spd2 :: ndarray where
  "spd2 = \<lparr>shape = [2, 2], dtype = Float32,
            data = [Finite 4, Finite 2, Finite 2, Finite 5]\<rparr>"

definition eye1 :: ndarray where
  "eye1 = \<lparr>shape = [1, 1], dtype = Float32, data = [Finite 1]\<rparr>"

definition inf2 :: ndarray where
  "inf2 = \<lparr>shape = [2, 2], dtype = Float32,
            data = [Finite 1, Infinity False, Finite 0, Finite 1]\<rparr>"

definition rect23 :: ndarray where
  "rect23 = \<lparr>shape = [2, 3], dtype = Float32,
              data = [Finite 1, Finite 2, Finite 3, Finite 4, Finite 5, Finite 6]\<rparr>"

definition rect12 :: ndarray where
  "rect12 = \<lparr>shape = [1, 2], dtype = Float32, data = [Finite 1, Finite 2]\<rparr>"

definition vec3 :: ndarray where
  "vec3 = \<lparr>shape = [3], dtype = Float32, data = [Finite 1, Finite 2, Finite 3]\<rparr>"

definition cube1 :: ndarray where
  "cube1 = \<lparr>shape = [1, 1, 1], dtype = Float32, data = [Finite 7]\<rparr>"

definition int2 :: ndarray where
  "int2 = \<lparr>shape = [2, 2], dtype = Int32,
            data = [Finite 1, Finite (- 3), Finite 0, Finite 1]\<rparr>"

text \<open>A device heap holding these arrays at the addresses 0 to 7, and nothing done yet.\<close>

definition s0 :: state where
  "s0 = \<lparr>heap = [spd2, eye1, inf2, rect23, rect12, vec3, cube1, int2], trace = []\<rparr>"



section \<open>Type codes\<close>

lemma dtype_char_f [simp]: "(dtype_char t = CHR ''f'') = (t = Float32)"
  by (cases t) simp_all

lemma dtype_char_d [simp]: "(dtype_char t = CHR ''d'') = (t = Float64)"
  by (cases t) simp_all

section \<open>Indexing the masked buffer\<close>

lemma concat_rows_nth:
  assumes "\<And>u. u < m \<Longrightarrow> length (f u) = n" and "u < m" and "v < n"
  shows "concat (map f [0..<m]) ! (u * n + v) = f u ! v"
  using assms
proof (induction m arbitrary: u)
  case 0
  then show ?case by simp
next
  case (Suc m)
  have len: "length (concat (map f [0..<m])) = m * n"
    using Suc.prems(1) by (induction m) simp_all
  show ?case
  proof (cases "u < m")
    case True
    have "u * n + v < m * n"
    proof -
      have "u * n + v < u * n + n" using Suc.prems(3) by simp
      also have "\<dots> = Suc u * n" by simp
      also have "\<dots> \<le> m * n" using True by (intro mult_le_mono1) simp
      finally show ?thesis .
    qed
    then show ?thesis
      using Suc.IH [of u] Suc.prems True by (simp add: nth_append len)
  next
    case False
    then have "u = m" using Suc.prems(2) by simp
    then show ?thesis by (simp add: nth_append len)
  qed
qed

lemma length_tril_data: "length (tril_data t m n k xs) = m * n"
  unfolding tril_data_def by (induction m) simp_all

lemma tril_data_nth:
  "u < m \<Longrightarrow> v < n \<Longrightarrow>
   tril_data t m n k xs ! (u * n + v) = mul_by_mask t (xs ! (u * n + v)) (int v - int u \<le> k)"
  unfolding tril_data_def by (subst concat_rows_nth [where n = n]) simp_all

lemma length_in_place: "length (in_place old written) = length old"
  by (simp add: in_place_def)

lemma mul_by_mask_zero: "is_finite e \<Longrightarrow> is_zero (mul_by_mask t e False)"
  by (cases e) (simp_all add: is_finite_def is_zero_def)

lemma tril_rank2:
  assumes "shape (heap s ! x) = [m, n]"
  shows "tril s x k =
     (Inr x,
      s\<lparr>heap := (heap s)[x := (heap s ! x)\<lparr>data := tril_data (dtype (heap s ! x)) m n k (data (heap s ! x))\<rparr>],
        trace := trace s @ [EvTril x]\<rparr>)"
  using assms by (simp add: tril_def Let_def)

lemma s0_heap_simps:
  "length (heap s0) = 8"
  "heap s0 ! 0 = spd2" "heap s0 ! 1 = eye1" "heap s0 ! 2 = inf2" "heap s0 ! 3 = rect23"
  "heap s0 ! 4 = rect12" "heap s0 ! 5 = vec3" "heap s0 ! 6 = cube1" "heap s0 ! 7 = int2"
  "trace s0 = []"
  by (simp_all add: s0_def)

text \<open>
  What \<open>_tril\<close> does to the elements that are finite: it works in place and returns
  its argument; the element at row \<open>u\<close>, column \<open>v\<close> is unchanged when \<open>v - u \<le> k\<close>
  and is zero afterwards when \<open>v - u > k\<close>.
\<close>

lemma tril_on_finite:
  assumes "x < length (heap s)" and "shape (heap s ! x) = [m, n]"
    and "u < m" and "v < n"
  shows "fst (tril s x k) = Inr x \<and>
     shape (heap (snd (tril s x k)) ! x) = [m, n] \<and>
     dtype (heap (snd (tril s x k)) ! x) = dtype (heap s ! x) \<and>
     (int v - int u \<le> k \<longrightarrow>
        elem_at (heap (snd (tril s x k)) ! x) u v = elem_at (heap s ! x) u v) \<and>
     (int v - int u > k \<longrightarrow> is_finite (elem_at (heap s ! x) u v) \<longrightarrow>
        is_zero (elem_at (heap (snd (tril s x k)) ! x) u v))"
proof -
  let ?x' = "heap (snd (tril s x k)) ! x"
  have x': "?x' = (heap s ! x)\<lparr>data := tril_data (dtype (heap s ! x)) m n k (data (heap s ! x))\<rparr>"
    using assms(1) by (simp add: tril_rank2 [OF assms(2)])
  have at: "elem_at ?x' u v =
      mul_by_mask (dtype (heap s ! x)) (elem_at (heap s ! x) u v) (int v - int u \<le> k)"
    using assms(3,4) by (simp add: x' elem_at_def assms(2) tril_data_nth)
  have "fst (tril s x k) = Inr x"
    by (simp add: tril_rank2 [OF assms(2)])
  moreover have "shape ?x' = [m, n]" "dtype ?x' = dtype (heap s ! x)"
    by (simp_all add: x' assms(2))
  moreover have "int v - int u \<le> k \<longrightarrow> elem_at ?x' u v = elem_at (heap s ! x) u v"
    by (simp add: at)
  moreover have "int v - int u > k \<longrightarrow> is_finite (elem_at (heap s ! x) u v) \<longrightarrow>
      is_zero (elem_at ?x' u v)"
    by (simp add: at mul_by_mask_zero)
  ultimately show ?thesis by blast
qed

text \<open>
  C3. The claim is that \<open>_tril(x, k)\<close> sets to zero every element at row \<open>u\<close>, column
  \<open>v\<close> with \<open>v - u > k\<close>. The code computes \<open>x *= mask\<close>, a product, and on a
  floating-point buffer the product of an infinity with zero is NaN. On the float32
  buffer with the rows \<open>1 inf\<close> and \<open>0 1\<close> and \<open>k = 0\<close>, the element at row 0, column 1
  has \<open>v - u = 1 > 0\<close>; after \<open>_tril\<close> it is NaN, which is not zero.
\<close>

theorem tril_infinity_gives_nan:
  "shape (heap s0 ! 2) = [2, 2] \<and> dtype (heap s0 ! 2) = Float32 \<and>
   data (heap s0 ! 2) = [Finite 1, Infinity False, Finite 0, Finite 1] \<and>
   int 1 - int 0 > 0 \<and>
   fst (tril s0 2 0) = Inr 2 \<and>
   data (heap (snd (tril s0 2 0)) ! 2) = [Finite 1, NaN, Finite 0, Finite 1] \<and>
   elem_at (heap (snd (tril s0 2 0)) ! 2) 0 1 = NaN \<and>
   \<not> is_zero (elem_at (heap (snd (tril s0 2 0)) ! 2) 0 1)"
  by code_simp

section \<open>The stages of the call\<close>

lemma astype_simps:
  "fst (astype E s p t) = length (heap s)"
  "heap (snd (astype E s p t)) =
     heap s @ [\<lparr>shape = shape (heap s ! p), dtype = t,
                data = map (cast E (dtype (heap s ! p)) t) (data (heap s ! p))\<rparr>]"
  "trace (snd (astype E s p t)) = trace s @ [EvAstype p t (length (heap s))]"
  by (simp_all add: astype_def Let_def)

lemma potrf_dispatch_simps:
  "fst (potrf_dispatch E s x n) = sint (snd (native E (dtype (heap s ! x)) n (data (heap s ! x))))"
  "heap (snd (potrf_dispatch E s x n)) =
     (heap s)[x := (heap s ! x)\<lparr>data := in_place (data (heap s ! x))
        (fst (native E (dtype (heap s ! x)) n (data (heap s ! x))))\<rparr>]"
  "\<exists>evs. trace (snd (potrf_dispatch E s x n)) = trace s @ evs"
  by (simp_all add: potrf_dispatch_def native_def Let_def)

lemma tril_heap:
  "length (heap (snd (tril s x k))) = length (heap s)"
  "y \<noteq> x \<Longrightarrow> heap (snd (tril s x k)) ! y = heap s ! y"
  by (simp_all add: tril_def Let_def split: list.splits)

lemma cholesky_device_frame:
  assumes "q < length (heap s)"
  shows "heap (snd (cholesky_device E s p)) ! q = heap s ! q"
  using assms
  by (auto simp: cholesky_device_def Let_def astype_simps potrf_dispatch_simps tril_heap nth_append
      split: option.splits list.splits)

lemma cholesky_frame:
  assumes "q < length (heap s)"
  shows "heap (snd (cholesky E s a)) ! q = heap s ! q"
  using assms
  by (auto simp: cholesky_def cholesky_device_frame split: sum.splits pyobj.splits)



lemma assertRank2_single:
  "assertRank2 h [Cupy p] =
     (if length (shape (h ! p)) \<noteq> 2 then Inl (LinAlgError (rank_message (length (shape (h ! p)))))
      else Inr ())"
  by simp

lemma assertNdSquareness_single:
  "assertNdSquareness h [Cupy p] =
     (case py_max (last2 (shape (h ! p))) of
        Inl e \<Rightarrow> Inl e
      | Inr mx \<Rightarrow>
          (case py_min (last2 (shape (h ! p))) of
             Inl e \<Rightarrow> Inl e
           | Inr mn \<Rightarrow> if mx \<noteq> mn then Inl (LinAlgError square_message) else Inr ()))"
  by (simp split: sum.splits)

lemma device_result_addr:
  "fst (cholesky_device E s p) = Inr x \<Longrightarrow> x = length (heap s)"
  by (auto simp: cholesky_device_def Let_def astype_simps tril_def
      split: option.splits list.splits if_splits)

lemma cholesky_cupy_enabled:
  "cusolver_enabled E \<Longrightarrow>
   cholesky E s (Cupy p) =
     (case assertRank2 (heap s) [Cupy p] of
        Inl e \<Rightarrow> (Inl e, s)
      | Inr _ \<Rightarrow>
          (case assertNdSquareness (heap s) [Cupy p] of
             Inl e \<Rightarrow> (Inl e, s)
           | Inr _ \<Rightarrow> cholesky_device E s p))"
  by (simp add: cholesky_def split: sum.splits)

lemma cholesky_result_addr:
  "fst (cholesky E s a) = Inr x \<Longrightarrow> x = length (heap s)"
  by (auto simp: cholesky_def device_result_addr split: sum.splits pyobj.splits if_splits)

section \<open>Messages determine the number they print\<close>

lemma digit_cases:
  assumes "d < 10"
  obtains "d = 0" | "d = 1" | "d = 2" | "d = 3" | "d = 4"
    | "d = 5" | "d = 6" | "d = 7" | "d = 8" | "d = (9::nat)"
  using assms by force

lemma digit_val_char: "d < 10 \<Longrightarrow> digit_val (digit_char d) = d"
  by (erule digit_cases) (simp_all add: digit_val_def digit_char_def)

lemma digit_char_not_minus: "d < 10 \<Longrightarrow> digit_char d \<noteq> CHR ''-''"
  by (erule digit_cases) (simp_all add: digit_char_def)

lemma parse_nat_snoc: "parse_nat (cs @ [c]) = 10 * parse_nat cs + digit_val c"
  by (simp add: parse_nat_def)

lemma parse_str_nat: "parse_nat (str_nat n) = n"
proof (induction n rule: str_nat.induct)
  case (1 n)
  show ?case
  proof (cases "n < 10")
    case True
    then show ?thesis
      by (subst str_nat.simps) (simp add: parse_nat_def digit_val_char)
  next
    case False
    then have "parse_nat (str_nat (n div 10)) = n div 10"
      using "1.IH" by simp
    with False show ?thesis
      by (subst str_nat.simps) (simp add: parse_nat_snoc digit_val_char)
  qed
qed

lemma str_nat_inj: "str_nat m = str_nat n \<Longrightarrow> m = n"
  by (metis parse_str_nat)

lemma str_nat_head: "str_nat n \<noteq> [] \<and> hd (str_nat n) \<noteq> CHR ''-''"
proof (induction n rule: str_nat.induct)
  case (1 n)
  show ?case
  proof (cases "n < 10")
    case True
    then show ?thesis
      by (subst (1 2) str_nat.simps) (simp add: digit_char_not_minus)
  next
    case False
    then have "str_nat (n div 10) \<noteq> [] \<and> hd (str_nat (n div 10)) \<noteq> CHR ''-''"
      using "1.IH" by simp
    with False show ?thesis
      by (subst (1 2) str_nat.simps) simp
  qed
qed

lemma str_int_inj: "str_int i = str_int j \<Longrightarrow> i = j"
proof -
  assume eq: "str_int i = str_int j"
  have neq: "\<And>a b. CHR ''-'' # str_nat a \<noteq> str_nat b"
    using str_nat_head by (metis list.sel(1))
  show "i = j"
  proof (cases "i < 0"; cases "j < 0")
    assume "i < 0" "j < 0"
    with eq have "nat (- i) = nat (- j)"
      by (simp add: str_int_def str_nat_inj)
    with \<open>i < 0\<close> \<open>j < 0\<close> show ?thesis by simp
  next
    assume "i < 0" "\<not> j < 0"
    with eq neq show ?thesis by (simp add: str_int_def)
  next
    assume "\<not> i < 0" "j < 0"
    with eq neq [of "nat (- j)" "nat i"] show ?thesis by (simp add: str_int_def)
  next
    assume "\<not> i < 0" "\<not> j < 0"
    with eq have "nat i = nat j"
      by (simp add: str_int_def str_nat_inj)
    with \<open>\<not> i < 0\<close> \<open>\<not> j < 0\<close> show ?thesis by simp
  qed
qed

lemma rank_message_inj: "rank_message r = rank_message r' \<Longrightarrow> r = r'"
  by (simp add: rank_message_def str_nat_inj)

lemma minor_message_inj: "minor_message i = minor_message j \<Longrightarrow> i = j"
  by (simp add: minor_message_def str_int_inj)

section \<open>The dtype resolver\<close>

lemma resolve_dtype_cases:
  "resolve_dtype t =
     Some (if t \<in> {Bool8, Int8, UInt8, Int16, UInt16, Float16, Float32} then Float32
           else if t \<in> {Int32, UInt32, Int64, UInt64, LongLong, ULongLong, Float64} then Float64
           else t)"
  by (cases t)
     (simp_all add: resolve_dtype_def find_common_type_def can_coerce_all_def test_types_def
        can_cast_def)

lemma resolve_dtype_total: "\<exists>t'. resolve_dtype t = Some t'"
  by (simp add: resolve_dtype_cases)

text \<open>
  For a boolean, an integer or a real floating type of at most double precision, the
  resolved type is float32 or float64.
\<close>

lemma resolve_dtype_real_types:
  "real_upto_double t \<Longrightarrow> resolve_dtype t = Some Float32 \<or> resolve_dtype t = Some Float64"
  by (cases t) (simp_all add: resolve_dtype_cases real_upto_double_def)


section \<open>The input is not mutated\<close>

text \<open>
  C8. \<open>cholesky\<close> never mutates \<open>a\<close>: whatever the outcome, error or result, the array
  at the address of \<open>a\<close> (elements, shape and element type) is the same after the call
  as before, and so is every other array that existed before the call. A result is a
  freshly allocated buffer, at an address different from that of \<open>a\<close>.
\<close>

theorem cholesky_input_not_mutated:
  assumes "p < length (heap s)"
  shows "heap (snd (cholesky E s (Cupy p))) ! p = heap s ! p \<and>
         (\<forall>q < length (heap s). heap (snd (cholesky E s (Cupy p))) ! q = heap s ! q) \<and>
         (\<forall>x. fst (cholesky E s (Cupy p)) = Inr x \<longrightarrow> x \<noteq> p \<and> x = length (heap s))"
  using assms cholesky_frame [of _ s E "Cupy p"] cholesky_result_addr [of E s "Cupy p"]
  by auto

theorem cholesky_input_not_mutated_witness:
  "0 < length (heap s0) \<and>
   heap (snd (cholesky env_ok s0 (Cupy 0))) ! 0 = spd2 \<and>
   fst (cholesky env_ok s0 (Cupy 0)) = Inr 8 \<and>
   heap (snd (cholesky (env_status 2) s0 (Cupy 0))) ! 0 = spd2"
proof -
  have h: "0 < length (heap s0)"
    by (simp add: s0_heap_simps)
  have "heap (snd (cholesky env_ok s0 (Cupy 0))) ! 0 = heap s0 ! 0"
    using cholesky_input_not_mutated [OF h, of env_ok] by blast
  moreover have "heap (snd (cholesky (env_status 2) s0 (Cupy 0))) ! 0 = heap s0 ! 0"
    using cholesky_input_not_mutated [OF h, of "env_status 2"] by blast
  moreover have "fst (cholesky env_ok s0 (Cupy 0)) = Inr 8"
    by code_simp
  ultimately show ?thesis using h by (simp add: s0_heap_simps)
qed

section \<open>The capability check\<close>

text \<open>
  C7. When the native solver library is unavailable, every call to \<open>cholesky\<close> fails
  with the capability error (\<open>RuntimeError\<close>) and leaves the state as it was: the heap
  is unchanged and nothing is added to the trace of device operations, so there is no
  copy, no buffer-size query and no factorization call.
\<close>

theorem capability_error_first:
  assumes "\<not> cusolver_enabled E"
  shows "cholesky E s a = (Inl (RuntimeError capability_message), s) \<and>
         heap (snd (cholesky E s a)) = heap s \<and>
         trace (snd (cholesky E s a)) = trace s"
  using assms by (simp add: cholesky_def)

theorem capability_error_first_witness:
  "\<not> cusolver_enabled env_off \<and>
   cholesky env_off s0 (Cupy 0) = (Inl (RuntimeError capability_message), s0) \<and>
   trace (snd (cholesky env_off s0 (Cupy 0))) = [] \<and>
   trace (snd (cholesky env_ok s0 (Cupy 0))) =
     [EvAstype 0 Float32 8, EvGetHandle, EvEmpty 1 Int32, EvBufferSize Float32 2,
      EvEmpty 2 Float32, EvPotrf Float32 2, EvReadback, EvTril 8]"
proof -
  have off: "\<not> cusolver_enabled env_off"
    by (simp add: env_off_def)
  have "cholesky env_off s0 (Cupy 0) = (Inl (RuntimeError capability_message), s0) \<and>
      trace (snd (cholesky env_off s0 (Cupy 0))) = trace s0"
    using capability_error_first [OF off, of s0 "Cupy 0"] by blast
  moreover have "trace (snd (cholesky env_ok s0 (Cupy 0))) =
     [EvAstype 0 Float32 8, EvGetHandle, EvEmpty 1 Int32, EvBufferSize Float32 2,
      EvEmpty 2 Float32, EvPotrf Float32 2, EvReadback, EvTril 8]"
    by code_simp
  ultimately show ?thesis using off by (simp add: s0_heap_simps)
qed

text \<open>
  C10. The capability check precedes all input validation: when the native solver
  library is disabled, \<open>cholesky\<close> raises the capability error for every input, also
  for one that is no device array, is not of rank 2 or is not square; no
  \<open>LinAlgError\<close> (the class of the type and shape errors) is ever raised.
\<close>

theorem capability_precedes_validation:
  assumes "\<not> cusolver_enabled E"
  shows "fst (cholesky E s a) = Inl (RuntimeError capability_message) \<and>
         (\<forall>m. fst (cholesky E s a) \<noteq> Inl (LinAlgError m)) \<and>
         snd (cholesky E s a) = s"
  using assms by (simp add: cholesky_def)

theorem capability_precedes_validation_witness:
  "\<not> cusolver_enabled env_off \<and>
   fst (cholesky env_off s0 Other) = Inl (RuntimeError capability_message) \<and>
   fst (cholesky env_off s0 (Cupy 5)) = Inl (RuntimeError capability_message) \<and>
   fst (cholesky env_off s0 (Cupy 3)) = Inl (RuntimeError capability_message) \<and>
   fst (cholesky env_ok s0 Other) = Inl (LinAlgError type_message) \<and>
   fst (cholesky env_ok s0 (Cupy 5)) = Inl (LinAlgError (rank_message 1)) \<and>
   fst (cholesky env_ok s0 (Cupy 3)) = Inl (LinAlgError square_message)"
proof -
  have off: "\<not> cusolver_enabled env_off"
    by (simp add: env_off_def)
  have "fst (cholesky env_off s0 Other) = Inl (RuntimeError capability_message)"
    and "fst (cholesky env_off s0 (Cupy 5)) = Inl (RuntimeError capability_message)"
    and "fst (cholesky env_off s0 (Cupy 3)) = Inl (RuntimeError capability_message)"
    using capability_precedes_validation [OF off, of s0] by blast+
  moreover have "fst (cholesky env_ok s0 Other) = Inl (LinAlgError type_message)"
    and "fst (cholesky env_ok s0 (Cupy 5)) = Inl (LinAlgError (rank_message 1))"
    and "fst (cholesky env_ok s0 (Cupy 3)) = Inl (LinAlgError square_message)"
    by code_simp+
  ultimately show ?thesis using off by simp
qed

section \<open>The shape validators\<close>

lemma last2_pair: "last2 [m, n] = [m, n]"
  by (simp add: last2_def)

text \<open>
  C5 (as amended). With the solver enabled, for every rank-2 device array whose two
  dimensions differ, the type check and the rank check pass, the squareness validator
  raises \<open>LinAlgError\<close> with its fixed message, and \<open>cholesky\<close> fails with that error
  before any device computation: the state, heap and trace, is unchanged. The message
  names the check that failed; it does not contain the shape.
\<close>

theorem non_square_rejected:
  assumes "cusolver_enabled E" and "shape (heap s ! p) = [m, n]" and "m \<noteq> n"
  shows "assertCupyArray [Cupy p] = Inr () \<and>
         assertRank2 (heap s) [Cupy p] = Inr () \<and>
         assertNdSquareness (heap s) [Cupy p] = Inl (LinAlgError square_message) \<and>
         cholesky E s (Cupy p) = (Inl (LinAlgError square_message), s)"
proof -
  have sq: "assertNdSquareness (heap s) [Cupy p] = Inl (LinAlgError square_message)"
    using assms(2,3)
    by (auto simp: assertNdSquareness_single last2_pair py_max_def py_min_def max_def min_def)
  have rk: "assertRank2 (heap s) [Cupy p] = Inr ()"
    using assms(2) by (simp add: assertRank2_single)
  have cu: "assertCupyArray [Cupy p] = Inr ()"
    by simp
  have ch: "cholesky E s (Cupy p) = (Inl (LinAlgError square_message), s)"
    by (simp only: cholesky_cupy_enabled [OF assms(1)] rk sq sum.case)
  show ?thesis
    by (intro conjI cu rk sq ch)
qed

theorem non_square_rejected_witness:
  "cusolver_enabled env_ok \<and> shape (heap s0 ! 3) = [2, 3] \<and> (2::nat) \<noteq> 3 \<and>
   cholesky env_ok s0 (Cupy 3) = (Inl (LinAlgError square_message), s0)"
proof -
  have h1: "cusolver_enabled env_ok" and h2: "shape (heap s0 ! 3) = [2, 3]"
    and h3: "(2::nat) \<noteq> 3"
    by (simp_all add: env_ok_def s0_heap_simps rect23_def)
  show ?thesis
    using non_square_rejected [OF h1 h2 h3] h1 h2 h3 by blast
qed

text \<open>
  C5 as written fails in three ways: a \<open>2 \<times> 3\<close> and a \<open>1 \<times> 2\<close> array raise the very
  same error, so the error does not identify the offending shape; with the solver
  disabled the \<open>2 \<times> 3\<close> array raises the capability error; and a \<open>2 \<times> 3\<close> array on
  the host raises the type error.
\<close>

theorem non_square_counterexample:
  "shape (heap s0 ! 3) = [2, 3] \<and> shape (heap s0 ! 4) = [1, 2] \<and>
   fst (cholesky env_ok s0 (Cupy 3)) = fst (cholesky env_ok s0 (Cupy 4)) \<and>
   fst (cholesky env_ok s0 (Cupy 3)) = Inl (LinAlgError ''Last 2 dimensions of the array must be square'') \<and>
   fst (cholesky env_off s0 (Cupy 3)) = Inl (RuntimeError capability_message) \<and>
   shape rect23 = [2, 3] \<and>
   fst (cholesky env_ok s0 (Numpy rect23)) = Inl (LinAlgError type_message)"
  by code_simp

text \<open>
  C6 (as amended). With the solver enabled, for every device array whose rank is not 2,
  \<open>cholesky\<close> fails, before any device computation, with the \<open>LinAlgError\<close> of the
  rank validator, whose message starts with the rank in decimal; no other rank gives
  the same message.
\<close>

theorem wrong_rank_rejected:
  assumes "cusolver_enabled E" and "length (shape (heap s ! p)) \<noteq> 2"
  shows "cholesky E s (Cupy p) =
           (Inl (LinAlgError (rank_message (length (shape (heap s ! p))))), s) \<and>
         (\<forall>r. rank_message r = rank_message (length (shape (heap s ! p))) \<longrightarrow>
              r = length (shape (heap s ! p)))"
proof -
  have rk: "assertRank2 (heap s) [Cupy p] =
      Inl (LinAlgError (rank_message (length (shape (heap s ! p)))))"
    using assms(2) by (simp add: assertRank2_single)
  have ch: "cholesky E s (Cupy p) =
      (Inl (LinAlgError (rank_message (length (shape (heap s ! p))))), s)"
    by (simp only: cholesky_cupy_enabled [OF assms(1)] rk sum.case)
  show ?thesis
    using ch rank_message_inj by blast
qed

theorem wrong_rank_rejected_witness:
  "cusolver_enabled env_ok \<and> length (shape (heap s0 ! 5)) \<noteq> 2 \<and>
   length (shape (heap s0 ! 6)) \<noteq> 2 \<and>
   cholesky env_ok s0 (Cupy 5) =
     (Inl (LinAlgError ''1-dimensional array given. Array must be two-dimensional''), s0) \<and>
   cholesky env_ok s0 (Cupy 6) =
     (Inl (LinAlgError ''3-dimensional array given. Array must be two-dimensional''), s0)"
proof -
  have h1: "cusolver_enabled env_ok" and h2: "length (shape (heap s0 ! 5)) \<noteq> 2"
    and h3: "length (shape (heap s0 ! 6)) \<noteq> 2"
    by (simp_all add: env_ok_def s0_heap_simps vec3_def cube1_def)
  have m1: "rank_message (length (shape (heap s0 ! 5))) =
      ''1-dimensional array given. Array must be two-dimensional''"
    and m3: "rank_message (length (shape (heap s0 ! 6))) =
      ''3-dimensional array given. Array must be two-dimensional''"
    by code_simp+
  show ?thesis
    using wrong_rank_rejected [OF h1 h2] wrong_rank_rejected [OF h1 h3] h1 h2 h3
    by (simp add: m1 m3)
qed

text \<open>
  C6 as written fails when the solver is disabled: a rank-1 device array then raises the
  capability error, not a shape error.
\<close>

theorem wrong_rank_counterexample:
  "length (shape (heap s0 ! 5)) = 1 \<and>
   fst (cholesky env_off s0 (Cupy 5)) = Inl (RuntimeError capability_message) \<and>
   fst (cholesky env_off s0 (Cupy 5)) \<noteq> Inl (LinAlgError (rank_message 1))"
  by code_simp

section \<open>The status of the native call and the result\<close>

lemma validators_pass:
  assumes "shape (h ! p) = [n, n]"
  shows "assertRank2 h [Cupy p] = Inr ()" and "assertNdSquareness h [Cupy p] = Inr ()"
  using assms
  by (simp_all add: assertRank2_single assertNdSquareness_single last2_pair py_max_def py_min_def)

lemma cholesky_valid:
  assumes "cusolver_enabled E" and "shape (heap s ! p) = [n, n]"
  shows "cholesky E s (Cupy p) = cholesky_device E s p"
  by (simp only: cholesky_cupy_enabled [OF assms(1)] validators_pass [OF assms(2)] sum.case)

lemma device_stages:
  assumes "shape (heap s ! p) = n # rest"
    and "resolve_dtype (dtype (heap s ! p)) = Some t"
    and "astype E s p t = (x, sA)"
    and "potrf_dispatch E sA x n = (status, sB)"
  shows "cholesky_device E s p =
     (if status > 0 then (Inl (LinAlgError (minor_message status)), sB)
      else if status < 0 then (Inl (LinAlgError parameter_message), sB)
      else tril sB x 0)"
  using assms by (simp add: cholesky_device_def Let_def)

lemma working_buffer:
  assumes "astype E s p t = (x, sA)"
    and "potrf_dispatch E sA x n = (status, sB)"
  shows "x = length (heap s)" and "x < length (heap sB)"
    and "shape (heap sB ! x) = shape (heap s ! p)"
    and "dtype (heap sB ! x) = t"
    and "status = sint (snd (native E t n (map (cast E (dtype (heap s ! p)) t) (data (heap s ! p)))))"
proof -
  have x: "x = length (heap s)" and sA: "sA = snd (astype E s p t)"
    using assms(1) astype_simps(1) [of E s p t] by simp_all
  have sB: "sB = snd (potrf_dispatch E sA x n)" and st: "status = fst (potrf_dispatch E sA x n)"
    using assms(2) by simp_all
  have xA: "heap sA ! x = \<lparr>shape = shape (heap s ! p), dtype = t,
      data = map (cast E (dtype (heap s ! p)) t) (data (heap s ! p))\<rparr>"
    by (simp add: sA x astype_simps)
  have lenA: "x < length (heap sA)"
    by (simp add: sA x astype_simps)
  show "x = length (heap s)" by (fact x)
  show "x < length (heap sB)"
    using lenA by (simp add: sB potrf_dispatch_simps)
  show "shape (heap sB ! x) = shape (heap s ! p)"
    using lenA by (simp add: sB potrf_dispatch_simps xA)
  show "dtype (heap sB ! x) = t"
    using lenA by (simp add: sB potrf_dispatch_simps xA)
  show "status = sint (snd (native E t n (map (cast E (dtype (heap s ! p)) t) (data (heap s ! p)))))"
    by (simp add: st potrf_dispatch_simps xA)
qed

lemma tril_result:
  assumes "x < length (heap s)" and "shape (heap s ! x) = [m, n]"
  shows "fst (tril s x k) = Inr x"
    and "heap (snd (tril s x k)) ! x =
      (heap s ! x)\<lparr>data := tril_data (dtype (heap s ! x)) m n k (data (heap s ! x))\<rparr>"
  using assms(1) by (simp_all add: tril_rank2 [OF assms(2)])

text \<open>
  C4. For every call to \<open>cholesky\<close> with the solver enabled and a valid input (a square
  device array of rank 2), the status that the native call wrote, read back as an
  integer, is classified exactly so: a status \<open>> 0\<close> raises \<open>LinAlgError\<close> with the
  message that the leading minor of order \<open>status\<close> is not positive definite (no other
  number gives that message); a status \<open>< 0\<close> raises \<open>LinAlgError\<close> with the
  parameter-error message; the status \<open>0\<close> goes on to the mask, \<open>_tril(x, 0)\<close> on the
  working buffer, and returns that buffer.
\<close>

theorem status_classified:
  assumes "cusolver_enabled E" and "shape (heap s ! p) = [n, n]"
    and "resolve_dtype (dtype (heap s ! p)) = Some t"
    and "astype E s p t = (x, sA)"
    and "potrf_dispatch E sA x n = (status, sB)"
  shows "status = sint (snd (native E t n (map (cast E (dtype (heap s ! p)) t) (data (heap s ! p))))) \<and>
     (status > 0 \<longrightarrow>
        cholesky E s (Cupy p) = (Inl (LinAlgError (minor_message status)), sB)) \<and>
     (status < 0 \<longrightarrow>
        cholesky E s (Cupy p) = (Inl (LinAlgError parameter_message), sB)) \<and>
     (status = 0 \<longrightarrow>
        cholesky E s (Cupy p) = tril sB x 0 \<and> fst (cholesky E s (Cupy p)) = Inr x) \<and>
     (\<forall>j. minor_message j = minor_message status \<longrightarrow> j = status)"
proof -
  have dev: "cholesky E s (Cupy p) =
     (if status > 0 then (Inl (LinAlgError (minor_message status)), sB)
      else if status < 0 then (Inl (LinAlgError parameter_message), sB)
      else tril sB x 0)"
    by (simp only: cholesky_valid [OF assms(1,2)] device_stages [OF assms(2-5)])
  have ok: "fst (tril sB x 0) = Inr x"
    using working_buffer(2,3) [OF assms(4,5)] assms(2) by (simp add: tril_result(1))
  have st: "status = sint (snd (native E t n (map (cast E (dtype (heap s ! p)) t) (data (heap s ! p)))))"
    by (rule working_buffer(5) [OF assms(4,5)])
  show ?thesis
    using st ok minor_message_inj by (auto simp: dev)
qed


theorem status_classified_witness:
  "cusolver_enabled (env_status 3) \<and> shape (heap s0 ! 0) = [2, 2] \<and>
   resolve_dtype (dtype (heap s0 ! 0)) = Some Float32 \<and>
   fst (potrf_dispatch (env_status 3) (snd (astype (env_status 3) s0 0 Float32)) 8 2) = 3 \<and>
   fst (cholesky (env_status 3) s0 (Cupy 0)) =
     Inl (LinAlgError ''The leading minor of order 3 is not positive definite'') \<and>
   fst (potrf_dispatch (env_status (- 1)) (snd (astype (env_status (- 1)) s0 0 Float32)) 8 2) = - 1 \<and>
   fst (cholesky (env_status (- 1)) s0 (Cupy 0)) =
     Inl (LinAlgError ''Parameter error (maybe caused by a bug in cupy.linalg?)'') \<and>
   fst (potrf_dispatch env_ok (snd (astype env_ok s0 0 Float32)) 8 2) = 0 \<and>
   fst (cholesky env_ok s0 (Cupy 0)) = Inr 8"
proof -
  have en: "cusolver_enabled (env_status 3)" "cusolver_enabled (env_status (- 1))"
      "cusolver_enabled env_ok"
    by (simp_all add: env_status_def env_ok_def)
  have sh: "shape (heap s0 ! 0) = [2, 2]"
    by (simp add: s0_heap_simps spd2_def)
  have rd: "resolve_dtype (dtype (heap s0 ! 0)) = Some Float32"
    by (simp add: s0_heap_simps spd2_def resolve_dtype_cases)
  have a3: "astype (env_status 3) s0 0 Float32 = (8, snd (astype (env_status 3) s0 0 Float32))"
    and am: "astype (env_status (- 1)) s0 0 Float32 = (8, snd (astype (env_status (- 1)) s0 0 Float32))"
    and a0: "astype env_ok s0 0 Float32 = (8, snd (astype env_ok s0 0 Float32))"
    by (simp_all add: prod_eq_iff astype_simps s0_heap_simps)
  let ?d3 = "potrf_dispatch (env_status 3) (snd (astype (env_status 3) s0 0 Float32)) 8 2"
  let ?dm = "potrf_dispatch (env_status (- 1)) (snd (astype (env_status (- 1)) s0 0 Float32)) 8 2"
  let ?d0 = "potrf_dispatch env_ok (snd (astype env_ok s0 0 Float32)) 8 2"
  have f3: "fst ?d3 = 3" and fm: "fst ?dm = - 1" and f0: "fst ?d0 = 0"
    by code_simp+
  have p3: "?d3 = (3, snd ?d3)" and pm: "?dm = (- 1, snd ?dm)" and p0: "?d0 = (0, snd ?d0)"
    using f3 fm f0 by (simp_all add: prod_eq_iff)
  have m3: "minor_message 3 = ''The leading minor of order 3 is not positive definite''"
    by code_simp
  have pos: "(3::int) > 0" and neg: "(- 1::int) < 0"
    by simp_all
  have "fst (cholesky (env_status 3) s0 (Cupy 0)) = Inl (LinAlgError (minor_message 3))"
    using status_classified [OF en(1) sh rd a3 p3] pos by (metis fst_conv)
  moreover have "fst (cholesky (env_status (- 1)) s0 (Cupy 0)) = Inl (LinAlgError parameter_message)"
    using status_classified [OF en(2) sh rd am pm] neg by (metis fst_conv)
  moreover have "fst (cholesky env_ok s0 (Cupy 0)) = Inr 8"
    using status_classified [OF en(3) sh rd a0 p0] by blast
  ultimately show ?thesis
    using en sh rd f3 fm f0 by (simp add: m3 parameter_message_def)
qed

text \<open>
  With status 0 the call returns the working buffer, which has the shape of the input
  and the resolved element type.
\<close>

lemma cholesky_result_shape:
  assumes "cusolver_enabled E" and "shape (heap s ! p) = [n, n]"
    and "resolve_dtype (dtype (heap s ! p)) = Some t"
    and "astype E s p t = (x, sA)"
    and "potrf_dispatch E sA x n = (0, sB)"
  shows "fst (cholesky E s (Cupy p)) = Inr x \<and>
     shape (heap (snd (cholesky E s (Cupy p))) ! x) = [n, n] \<and>
     dtype (heap (snd (cholesky E s (Cupy p))) ! x) = t \<and>
     length (data (heap (snd (cholesky E s (Cupy p))) ! x)) = n * n"
proof -
  have ch: "cholesky E s (Cupy p) = tril sB x 0"
    by (simp add: cholesky_valid [OF assms(1,2)] device_stages [OF assms(2-5)])
  have len: "x < length (heap sB)" and sh: "shape (heap sB ! x) = [n, n]"
    and dt: "dtype (heap sB ! x) = t"
    using working_buffer(2-4) [OF assms(4,5)] assms(2) by simp_all
  have "fst (tril sB x 0) = Inr x"
    by (rule tril_result(1) [OF len sh])
  moreover have "shape (heap (snd (tril sB x 0)) ! x) = [n, n]"
    "dtype (heap (snd (tril sB x 0)) ! x) = t"
    "length (data (heap (snd (tril sB x 0)) ! x)) = n * n"
    by (simp_all add: tril_result(2) [OF len sh] sh dt length_tril_data)
  ultimately show ?thesis
    by (simp only: ch)
qed

text \<open>
  C2. The claim is that every element of the result strictly above the main diagonal
  is exactly zero; the docstring calls the result a lower-triangular matrix. The input
  here is the \<open>2 \<times> 2\<close> float32 array with the rows \<open>1 inf\<close> and \<open>0 1\<close>. The native
  call reads one triangle of the buffer, here the identity matrix, reports status 0
  and leaves the buffer as it is, the infinity included. \<open>_tril\<close> then multiplies the
  infinity by zero, and the result holds NaN at row 0, column 1.
\<close>

theorem upper_triangle_nan_at_infinity:
  "cusolver_enabled env_ok \<and> shape (heap s0 ! 2) = [2, 2] \<and> dtype (heap s0 ! 2) = Float32 \<and>
   data (heap s0 ! 2) = [Finite 1, Infinity False, Finite 0, Finite 1] \<and>
   fst (potrf_dispatch env_ok (snd (astype env_ok s0 2 Float32)) 8 2) = 0 \<and>
   fst (cholesky env_ok s0 (Cupy 2)) = Inr 8 \<and>
   data (heap (snd (cholesky env_ok s0 (Cupy 2))) ! 8) = [Finite 1, NaN, Finite 0, Finite 1] \<and>
   elem_at (heap (snd (cholesky env_ok s0 (Cupy 2))) ! 8) 0 1 = NaN \<and>
   \<not> is_zero (elem_at (heap (snd (cholesky env_ok s0 (Cupy 2))) ! 8) 0 1)"
  by code_simp

end
